theory Spec2Isabelle
  imports Complex_Main "HOL-Library.Monad_Syntax"
begin

section \<open>Numbers and points\<close>

text \<open>
  The TypeScript type \<open>number\<close> and the firmware's \<open>double\<close> are modelled as exact
  reals: rounding, overflow and signed zeros of IEEE-754 arithmetic are not part of
  this development. A boundary point is the object \<open>{ lat, lon }\<close>.
\<close>

record point =
  lat :: real
  lon :: real

section \<open>Coordinate filter of the firmware\<close>

text \<open>
  The globals \<open>isFirstValidCoordinate\<close>, \<open>lastLat\<close> and \<open>lastLon\<close> of the sketch,
  passed explicitly. They start as \<open>true\<close>, \<open>0\<close>, \<open>0\<close>.
\<close>

record filter_state =
  isFirstValidCoordinate :: bool
  lastLat :: real
  lastLon :: real

definition initial_filter :: filter_state where
  "initial_filter = \<lparr>isFirstValidCoordinate = True, lastLat = 0, lastLon = 0\<rparr>"

definition MIN_DISTANCE_CHANGE :: real where
  "MIN_DISTANCE_CHANGE = 0.00001"

text \<open>\<open>sqrt(pow(lat2 - lat1, 2) + pow(lon2 - lon1, 2))\<close>; the radicand is a sum of squares.\<close>

definition calculateDistance :: "real \<Rightarrow> real \<Rightarrow> real \<Rightarrow> real \<Rightarrow> real" where
  "calculateDistance lat1 lon1 lat2 lon2 = sqrt ((lat2 - lat1)\<^sup>2 + (lon2 - lon1)\<^sup>2)"

text \<open>The result is the returned flag together with the globals after the call.\<close>

definition isValidCoordinate :: "real \<Rightarrow> real \<Rightarrow> filter_state \<Rightarrow> bool \<times> filter_state" where
  "isValidCoordinate la lo s =
     (if \<bar>la\<bar> < 0.0001 \<and> \<bar>lo\<bar> < 0.0001 then (False, s)
      else if isFirstValidCoordinate s then
        (True, s\<lparr>isFirstValidCoordinate := False, lastLat := la, lastLon := lo\<rparr>)
      else
        (let distance = calculateDistance (lastLat s) (lastLon s) la lo
         in if distance < MIN_DISTANCE_CHANGE then (False, s)
            else (True, s\<lparr>lastLat := la, lastLon := lo\<rparr>)))"

section \<open>Shoelace area\<close>

text \<open>
  The \<open>for\<close> loop of \<open>calculateShoelaceArea\<close>: one step adds \<open>lat\<^sub>i * lon\<^sub>j\<close> and then
  subtracts \<open>lat\<^sub>j * lon\<^sub>i\<close>, with \<open>j = (i + 1) % length\<close>.
\<close>

definition shoelace_step :: "point list \<Rightarrow> real \<Rightarrow> nat \<Rightarrow> real" where
  "shoelace_step coordinates area i =
     (let j = (i + 1) mod length coordinates
      in (area + lat (coordinates ! i) * lon (coordinates ! j))
           - lat (coordinates ! j) * lon (coordinates ! i))"

definition shoelace_loop :: "point list \<Rightarrow> real" where
  "shoelace_loop coordinates = foldl (shoelace_step coordinates) 0 [0..<length coordinates]"

text \<open>The value of \<open>area\<close> after \<open>Math.abs(area) / 2\<close>: square degrees.\<close>

definition shoelaceSquareDegrees :: "point list \<Rightarrow> real" where
  "shoelaceSquareDegrees coordinates = \<bar>shoelace_loop coordinates\<bar> / 2"

definition calculateShoelaceArea :: "point list \<Rightarrow> real" where
  "calculateShoelaceArea coordinates =
     (if length coordinates < 3 then 0
      else (let area = shoelaceSquareDegrees coordinates;
                areaInSquareKm = area * 111.32 * 111.32
            in areaInSquareKm * 100))"

text \<open>The firmware's \<open>calculateArea\<close> over the global vector of \<open>(lat, lon)\<close> pairs.\<close>

definition calculateArea_step :: "(real \<times> real) list \<Rightarrow> real \<Rightarrow> nat \<Rightarrow> real" where
  "calculateArea_step coordinates area i =
     (let n = length coordinates;
          x1 = fst (coordinates ! i);
          y1 = snd (coordinates ! i);
          x2 = fst (coordinates ! ((i + 1) mod n));
          y2 = snd (coordinates ! ((i + 1) mod n))
      in area + (x1 * y2 - x2 * y1))"

definition calculateArea :: "(real \<times> real) list \<Rightarrow> real" where
  "calculateArea coordinates =
     (if length coordinates < 3 then 0
      else (let area = foldl (calculateArea_step coordinates) 0 [0..<length coordinates];
                area = \<bar>area\<bar> / 2;
                areaInSquareKm = area * 111.32 * 111.32;
                areaInHectares = areaInSquareKm * 100
            in areaInHectares))"

section \<open>Library functions of the host language\<close>

text \<open>
  \<open>Math.atan2(y, x)\<close> on reals: the angle of the point \<open>(x, y)\<close> in \<open>(-\<pi>, \<pi>]\<close>, and
  \<open>0\<close> at the origin.
\<close>

definition Math_atan2 :: "real \<Rightarrow> real \<Rightarrow> real" where
  "Math_atan2 y x =
     (if 0 < x then arctan (y / x)
      else if x < 0 then (if 0 \<le> y then arctan (y / x) + pi else arctan (y / x) - pi)
      else if 0 < y then pi / 2
      else if y < 0 then - (pi / 2)
      else 0)"

text \<open>
  \<open>Math.sqrt\<close> returns \<open>NaN\<close> on a negative argument. Where a radicand can be
  negative the result is an option, \<open>None\<close> standing for \<open>NaN\<close>; arithmetic on
  \<open>NaN\<close> gives \<open>NaN\<close>, which is the bind of the option monad.
\<close>

definition Math_sqrt :: "real \<Rightarrow> real option" where
  "Math_sqrt x = (if x < 0 then None else Some (sqrt x))"

text \<open>
  \<open>Array.prototype.sort\<close> is a stable comparison sort, and the comparator is only
  asked about two different slots of the array. Where it orders those consistently
  the result is the one stable ordering, which insertion from the right computes: an
  element \<open>x\<close> stays in front of \<open>y\<close> unless the comparator is positive.
\<close>

fun insort_by :: "('a \<Rightarrow> 'a \<Rightarrow> real) \<Rightarrow> 'a \<Rightarrow> 'a list \<Rightarrow> 'a list" where
  "insort_by cmp x [] = [x]"
| "insort_by cmp x (y # ys) = (if cmp x y \<le> 0 then x # y # ys else y # insort_by cmp x ys)"

definition sort_by :: "('a \<Rightarrow> 'a \<Rightarrow> real) \<Rightarrow> 'a list \<Rightarrow> 'a list" where
  "sort_by cmp xs = foldr (insort_by cmp) xs []"

section \<open>Haversine area\<close>

definition haversineDistance :: "real \<Rightarrow> real \<Rightarrow> real \<Rightarrow> real \<Rightarrow> real option" where
  "haversineDistance lat1 lon1 lat2 lon2 =
     (let R = 6371;
          dLat = ((lat2 - lat1) * pi) / 180;
          dLon = ((lon2 - lon1) * pi) / 180;
          a = sin (dLat / 2) * sin (dLat / 2)
              + cos ((lat1 * pi) / 180) * cos ((lat2 * pi) / 180) * sin (dLon / 2) * sin (dLon / 2)
      in do {
        ra \<leftarrow> Math_sqrt a;
        rb \<leftarrow> Math_sqrt (1 - a);
        let c = 2 * Math_atan2 ra rb;
        Some (R * c)
      })"

text \<open>\<open>coordinates.reduce((sum, coord) => sum + coord.lat, 0) / coordinates.length\<close>, and the same for \<open>lon\<close>.\<close>

definition centroid :: "point list \<Rightarrow> point" where
  "centroid coordinates =
     \<lparr>lat = foldl (\<lambda>sum coord. sum + lat coord) 0 coordinates / real (length coordinates),
      lon = foldl (\<lambda>sum coord. sum + lon coord) 0 coordinates / real (length coordinates)\<rparr>"

text \<open>
  Heron's formula as the utility module writes it, on the three sides of one triangle:
  the radicand goes through \<open>Math.max(0, _)\<close> first.
\<close>

definition heronTriangleArea :: "real \<Rightarrow> real \<Rightarrow> real \<Rightarrow> real option" where
  "heronTriangleArea a b c =
     (let s = (a + b + c) / 2
      in Math_sqrt (max 0 (s * (s - a) * (s - b) * (s - c))))"

definition haversine_step :: "point list \<Rightarrow> point \<Rightarrow> real option \<Rightarrow> nat \<Rightarrow> real option" where
  "haversine_step coordinates cen area i =
     (let j = (i + 1) mod length coordinates
      in do {
        a \<leftarrow> haversineDistance (lat cen) (lon cen) (lat (coordinates ! i)) (lon (coordinates ! i));
        b \<leftarrow> haversineDistance (lat cen) (lon cen) (lat (coordinates ! j)) (lon (coordinates ! j));
        c \<leftarrow> haversineDistance (lat (coordinates ! i)) (lon (coordinates ! i))
               (lat (coordinates ! j)) (lon (coordinates ! j));
        triangleArea \<leftarrow> heronTriangleArea a b c;
        ar \<leftarrow> area;
        Some (ar + triangleArea)
      })"

definition calculateHaversineArea :: "point list \<Rightarrow> real option" where
  "calculateHaversineArea coordinates =
     (if length coordinates < 3 then Some 0
      else do {
        area \<leftarrow> foldl (haversine_step coordinates (centroid coordinates)) (Some 0)
                  [0..<length coordinates];
        Some (area * 100)
      })"

text \<open>
  The algorithms page carries its own copy of the two functions. Its
  \<open>haversineDistance\<close> is the same text as the utility's; its Heron step takes the
  square root of the radicand as it is.
\<close>

definition page_heronTriangleArea :: "real \<Rightarrow> real \<Rightarrow> real \<Rightarrow> real option" where
  "page_heronTriangleArea a b c =
     (let s = (a + b + c) / 2
      in Math_sqrt (s * (s - a) * (s - b) * (s - c)))"

definition page_haversine_step :: "point list \<Rightarrow> point \<Rightarrow> real option \<Rightarrow> nat \<Rightarrow> real option" where
  "page_haversine_step coords cen area i =
     (let j = (i + 1) mod length coords
      in do {
        a \<leftarrow> haversineDistance (lat cen) (lon cen) (lat (coords ! i)) (lon (coords ! i));
        b \<leftarrow> haversineDistance (lat cen) (lon cen) (lat (coords ! j)) (lon (coords ! j));
        c \<leftarrow> haversineDistance (lat (coords ! i)) (lon (coords ! i))
               (lat (coords ! j)) (lon (coords ! j));
        triangleArea \<leftarrow> page_heronTriangleArea a b c;
        ar \<leftarrow> area;
        Some (ar + triangleArea)
      })"

definition page_calculateHaversineArea :: "point list \<Rightarrow> real option" where
  "page_calculateHaversineArea coords =
     (if length coords < 3 then Some 0
      else do {
        area \<leftarrow> foldl (page_haversine_step coords (centroid coords)) (Some 0) [0..<length coords];
        Some (area * 100)
      })"

section \<open>Convex hull\<close>

definition isLeftTurn :: "point \<Rightarrow> point \<Rightarrow> point \<Rightarrow> bool" where
  "isLeftTurn p1 p2 p3 \<longleftrightarrow>
     (lon p2 - lon p1) * (lat p3 - lat p1) - (lat p2 - lat p1) * (lon p3 - lon p1) > 0"

text \<open>
  \<open>lowestPoint\<close> is an object reference and the comparator tests \<open>a === lowestPoint\<close>.
  Every array slot holds its own object (the arrays come from parsed files and database
  rows), so a reference is the index of its slot: the loop below returns the index of
  \<open>lowestPoint\<close>, and the array of indices is what gets sorted.
\<close>

definition lowest_step :: "point list \<Rightarrow> nat \<Rightarrow> nat \<Rightarrow> nat" where
  "lowest_step coordinates lowestPoint i =
     (if lat (coordinates ! i) < lat (coordinates ! lowestPoint)
         \<or> (lat (coordinates ! i) = lat (coordinates ! lowestPoint)
             \<and> lon (coordinates ! i) < lon (coordinates ! lowestPoint))
      then i else lowestPoint)"

definition lowestPoint :: "point list \<Rightarrow> nat" where
  "lowestPoint coordinates = foldl (lowest_step coordinates) 0 [1..<length coordinates]"

definition hull_compare :: "point list \<Rightarrow> nat \<Rightarrow> nat \<Rightarrow> nat \<Rightarrow> real" where
  "hull_compare coordinates low ia ib =
     (if ia = low then - 1
      else if ib = low then 1
      else (let a = coordinates ! ia; b = coordinates ! ib; lowest = coordinates ! low;
                angleA = Math_atan2 (lat a - lat lowest) (lon a - lon lowest);
                angleB = Math_atan2 (lat b - lat lowest) (lon b - lon lowest)
            in if angleA = angleB then
                 (let distA = sqrt ((lat a - lat lowest)\<^sup>2 + (lon a - lon lowest)\<^sup>2);
                      distB = sqrt ((lat b - lat lowest)\<^sup>2 + (lon b - lon lowest)\<^sup>2)
                  in distA - distB)
               else angleA - angleB))"

definition sortedPoints :: "point list \<Rightarrow> point list" where
  "sortedPoints coordinates =
     map (\<lambda>i. coordinates ! i)
       (sort_by (hull_compare coordinates (lowestPoint coordinates)) [0..<length coordinates])"

text \<open>The inner \<open>while\<close> loop: pop while the last two hull points and \<open>p\<close> make no left turn.\<close>

function hull_pop :: "point list \<Rightarrow> point \<Rightarrow> point list" where
  "hull_pop hullPts p =
     (if 2 \<le> length hullPts \<and> \<not> isLeftTurn (hullPts ! (length hullPts - 2)) (hullPts ! (length hullPts - 1)) p
      then hull_pop (butlast hullPts) p
      else hullPts)"
  by pat_completeness auto
termination
  by (relation "measure (\<lambda>(hullPts, p). length hullPts)") auto

declare hull_pop.simps [simp del]

definition graham_step :: "point list \<Rightarrow> point \<Rightarrow> point list" where
  "graham_step hullPts p = hull_pop hullPts p @ [p]"

definition calculateConvexHull :: "point list \<Rightarrow> point list" where
  "calculateConvexHull coordinates =
     (if length coordinates \<le> 3 then coordinates
      else (let sortedPts = sortedPoints coordinates;
                hullPts = [sortedPts ! 0, sortedPts ! 1]
            in foldl graham_step hullPts (drop 2 sortedPts)))"

definition calculateConvexHullArea :: "point list \<Rightarrow> real" where
  "calculateConvexHullArea coordinates =
     (let hullPts = calculateConvexHull coordinates in calculateShoelaceArea hullPts)"

section \<open>Hull fallback\<close>

definition calculateDelaunayArea :: "point list \<Rightarrow> real" where
  "calculateDelaunayArea coordinates =
     (if length coordinates < 3 then 0
      else (let hullPts = calculateConvexHull coordinates;
                interiorPoints =
                  filter (\<lambda>point. \<not> list_ex (\<lambda>hullPoint. lat hullPoint = lat point
                                                        \<and> lon hullPoint = lon point) hullPts)
                    coordinates;
                totalArea = calculateShoelaceArea hullPts
            in if length interiorPoints = 0 then totalArea else totalArea))"

section \<open>Dispatch by algorithm name\<close>

text \<open>
  The four functions share the type \<open>number\<close> of their result; the three that take no
  square root of a possibly negative number never return \<open>NaN\<close>.
\<close>

definition getAreaCalculationFunction :: "string \<Rightarrow> point list \<Rightarrow> real option" where
  "getAreaCalculationFunction algorithm =
     (if algorithm = ''haversine'' then calculateHaversineArea
      else if algorithm = ''convexHull'' then (\<lambda>coords. Some (calculateConvexHullArea coords))
      else if algorithm = ''delaunay'' then (\<lambda>coords. Some (calculateDelaunayArea coords))
      else (\<lambda>coords. Some (calculateShoelaceArea coords)))"

section \<open>Unit toggle of the dashboard\<close>






section \<open>The shoelace sum as a sum over the ring of edges\<close>








section \<open>Boundaries used in the scenarios\<close>

definition square_boundary :: "point list" where
  "square_boundary =
     [\<lparr>lat = 1, lon = 1\<rparr>, \<lparr>lat = 1, lon = 2\<rparr>, \<lparr>lat = 2, lon = 2\<rparr>, \<lparr>lat = 2, lon = 1\<rparr>]"



text \<open>The filter after it has accepted \<open>(10.000005, 20.000003)\<close> as its first point.\<close>

definition after_first_fix :: filter_state where
  "after_first_fix = snd (isValidCoordinate 10.000005 20.000003 initial_filter)"

section \<open>Fewer than three points\<close>

text \<open>
  Claim C1. A boundary of fewer than three points (none, one or two) has area \<open>0\<close>
  under each of the four algorithms: shoelace, haversine, convex hull and the hull
  fallback.
\<close>

theorem insufficient_points_zero:
  assumes "length coordinates < 3"
  shows "calculateShoelaceArea coordinates = 0
       \<and> calculateHaversineArea coordinates = Some 0
       \<and> calculateConvexHullArea coordinates = 0
       \<and> calculateDelaunayArea coordinates = 0"
  using assms
  by (simp add: calculateShoelaceArea_def calculateHaversineArea_def calculateConvexHullArea_def
      calculateConvexHull_def calculateDelaunayArea_def)

theorem insufficient_points_zero_witness:
  "calculateShoelaceArea [] = 0 \<and> calculateHaversineArea [] = Some 0
   \<and> calculateConvexHullArea [] = 0 \<and> calculateDelaunayArea [] = 0
   \<and> calculateShoelaceArea [\<lparr>lat = 1, lon = 1\<rparr>] = 0
   \<and> calculateHaversineArea [\<lparr>lat = 1, lon = 1\<rparr>] = Some 0
   \<and> calculateConvexHullArea [\<lparr>lat = 1, lon = 1\<rparr>] = 0
   \<and> calculateDelaunayArea [\<lparr>lat = 1, lon = 1\<rparr>] = 0
   \<and> calculateShoelaceArea [\<lparr>lat = 1, lon = 1\<rparr>, \<lparr>lat = 1, lon = 2\<rparr>] = 0
   \<and> calculateHaversineArea [\<lparr>lat = 1, lon = 1\<rparr>, \<lparr>lat = 1, lon = 2\<rparr>] = Some 0
   \<and> calculateConvexHullArea [\<lparr>lat = 1, lon = 1\<rparr>, \<lparr>lat = 1, lon = 2\<rparr>] = 0
   \<and> calculateDelaunayArea [\<lparr>lat = 1, lon = 1\<rparr>, \<lparr>lat = 1, lon = 2\<rparr>] = 0"
  using insufficient_points_zero [of "[]"]
    insufficient_points_zero [of "[\<lparr>lat = 1, lon = 1\<rparr>]"]
    insufficient_points_zero [of "[\<lparr>lat = 1, lon = 1\<rparr>, \<lparr>lat = 1, lon = 2\<rparr>]"]
  by simp

section \<open>Evaluating the Graham scan\<close>

text \<open>
  The comparator decides by the polar angle around the lowest point. For points to the
  right of it the order of angles is the order of slopes, and a point straight above
  comes after all of them.
\<close>

lemma atan2_right: "0 < x \<Longrightarrow> Math_atan2 y x = arctan (y / x)"
  by (simp add: Math_atan2_def)

lemma atan2_above: "0 < y \<Longrightarrow> Math_atan2 y 0 = pi / 2"
  by (simp add: Math_atan2_def)

lemma atan2_less_right:
  "0 < x1 \<Longrightarrow> 0 < x2 \<Longrightarrow> Math_atan2 y1 x1 < Math_atan2 y2 x2 \<longleftrightarrow> y1 * x2 < y2 * x1"
  by (simp add: atan2_right arctan_less_iff field_simps)

lemma atan2_eq_right:
  "0 < x1 \<Longrightarrow> 0 < x2 \<Longrightarrow> Math_atan2 y1 x1 = Math_atan2 y2 x2 \<longleftrightarrow> y1 * x2 = y2 * x1"
  by (simp add: atan2_right arctan_eq_iff field_simps)

lemma atan2_right_above:
  assumes "0 < x1" "0 < y2"
  shows "Math_atan2 y1 x1 < Math_atan2 y2 0"
    and "\<not> Math_atan2 y2 0 < Math_atan2 y1 x1"
    and "Math_atan2 y1 x1 \<noteq> Math_atan2 y2 0"
    and "Math_atan2 y2 0 \<noteq> Math_atan2 y1 x1"
  using assms arctan_ubound [of "y1 / x1"] by (simp_all add: atan2_right atan2_above)

lemma hull_compare_lowest_first: "hull_compare cs low low ib \<le> 0"
  by (simp add: hull_compare_def)

lemma hull_compare_lowest_second: "ia \<noteq> low \<Longrightarrow> \<not> hull_compare cs low ia low \<le> 0"
  by (simp add: hull_compare_def)

lemma hull_compare_le0:
  "ia \<noteq> low \<Longrightarrow> ib \<noteq> low \<Longrightarrow>
   hull_compare cs low ia ib \<le> 0 \<longleftrightarrow>
     (let a = cs ! ia; b = cs ! ib; l = cs ! low;
          angleA = Math_atan2 (lat a - lat l) (lon a - lon l);
          angleB = Math_atan2 (lat b - lat l) (lon b - lon l)
      in angleA < angleB
         \<or> (angleA = angleB
             \<and> sqrt ((lat a - lat l)\<^sup>2 + (lon a - lon l)\<^sup>2)
                 \<le> sqrt ((lat b - lat l)\<^sup>2 + (lon b - lon l)\<^sup>2)))"
  by (auto simp add: hull_compare_def Let_def)

lemmas hull_eval =
  sort_by_def upt_conv_Cons hull_compare_lowest_first hull_compare_lowest_second hull_compare_le0
  Let_def atan2_less_right atan2_eq_right atan2_right_above

lemmas shoelace_eval =
  calculateShoelaceArea_def shoelaceSquareDegrees_def shoelace_loop_def shoelace_step_def
  upt_conv_Cons

lemma square_lowest: "lowestPoint square_boundary = 0"
  by (simp add: square_boundary_def lowestPoint_def lowest_step_def upt_conv_Cons)

lemma square_sorted: "sortedPoints square_boundary = square_boundary"
  unfolding sortedPoints_def square_lowest
  by (simp add: square_boundary_def hull_eval)

lemma square_hull: "calculateConvexHull square_boundary = square_boundary"
  unfolding calculateConvexHull_def square_sorted
  by (simp add: square_boundary_def graham_step_def hull_pop.simps isLeftTurn_def)

section \<open>The unit square\<close>

text \<open>
  Claim C2, as the specification states it: on \<open>(1,1), (1,2), (2,2), (2,1)\<close> the
  shoelace result is \<open>1,239,207.6...\<close> hectares. The code returns another number: the
  product \<open>111.32\<^sup>2 * 100\<close> is \<open>1,239,214.24\<close>.
\<close>

theorem square_area_not_1239207:
  "\<not> (1239207.6 \<le> calculateShoelaceArea square_boundary
      \<and> calculateShoelaceArea square_boundary < 1239207.7)"
  by (simp add: square_boundary_def shoelace_eval)

text \<open>
  Claim C2, amended. On \<open>(1,1), (1,2), (2,2), (2,1)\<close> the shoelace sum gives exactly
  \<open>1\<close> square degree, the result is \<open>111.32\<^sup>2 * 100 = 1,239,214.24\<close> hectares, the
  convex-hull algorithm returns the same number, and so does the firmware's
  \<open>calculateArea\<close>.
\<close>

theorem square_area:
  "shoelaceSquareDegrees square_boundary = 1
   \<and> calculateShoelaceArea square_boundary = 111.32\<^sup>2 * 100
   \<and> calculateShoelaceArea square_boundary = 1239214.24
   \<and> calculateConvexHullArea square_boundary = calculateShoelaceArea square_boundary
   \<and> calculateArea [(1, 1), (1, 2), (2, 2), (2, 1)] = 1239214.24"
  by (simp add: calculateConvexHullArea_def square_hull)
    (simp add: square_boundary_def shoelace_eval calculateArea_def calculateArea_step_def
      power2_eq_square)

section \<open>The hull fallback equals the convex-hull area\<close>

text \<open>
  Claim C4. On every boundary, of any length, \<open>calculateDelaunayArea\<close> returns what
  \<open>calculateConvexHullArea\<close> returns: the shoelace area of the convex hull. The interior
  points it collects do not enter the result.
\<close>

theorem delaunay_is_hull_area:
  "calculateDelaunayArea coordinates = calculateConvexHullArea coordinates
   \<and> calculateDelaunayArea coordinates = calculateShoelaceArea (calculateConvexHull coordinates)"
  by (simp add: calculateDelaunayArea_def calculateConvexHullArea_def calculateConvexHull_def
      calculateShoelaceArea_def Let_def)

section \<open>The coordinate filter\<close>

text \<open>
  Claim C5. A candidate with \<open>|lat| < 1e-4\<close> and \<open>|lon| < 1e-4\<close> is rejected in every
  filter state, also as the very first point, and the state (last accepted point and
  first-point flag) stays as it was; \<open>(0.00005, -0.00003)\<close> is such a candidate.
\<close>

theorem origin_sentinel_rejected:
  "(\<bar>la\<bar> < 0.0001 \<and> \<bar>lo\<bar> < 0.0001 \<longrightarrow> isValidCoordinate la lo s = (False, s))
   \<and> isValidCoordinate 0.00005 (- 0.00003) s = (False, s)"
  by (simp add: isValidCoordinate_def)

theorem origin_sentinel_rejected_witness:
  "isValidCoordinate 0.00005 (- 0.00003) initial_filter = (False, initial_filter)
   \<and> isFirstValidCoordinate initial_filter
   \<and> isValidCoordinate 0.00002 0.00009 after_first_fix = (False, after_first_fix)"
  using origin_sentinel_rejected [of "0.00005" "- 0.00003" initial_filter]
    origin_sentinel_rejected [of "0.00002" "0.00009" after_first_fix]
  by (simp add: initial_filter_def)

lemma first_fix_accepted:
  "isValidCoordinate 10.000005 20.000003 initial_filter =
     (True, \<lparr>isFirstValidCoordinate = False, lastLat = 10.000005, lastLon = 20.000003\<rparr>)"
  by (simp add: isValidCoordinate_def initial_filter_def)

lemma jitter_distance: "sqrt ((10 - 10.000005)\<^sup>2 + (20 - 20.000003)\<^sup>2) < (0.00001::real)"
  by (rule real_less_lsqrt) (simp_all add: power2_eq_square)

lemma moved_distance:
  "\<not> sqrt ((10.01 - 10.000005)\<^sup>2 + (20.01 - 20.000003)\<^sup>2) < (0.00001::real)"
proof -
  have "(0.00001::real) \<le> sqrt ((10.01 - 10.000005)\<^sup>2 + (20.01 - 20.000003)\<^sup>2)"
    by (rule real_le_rsqrt) (simp add: power2_eq_square)
  then show ?thesis by linarith
qed

text \<open>
  Claim C6. Once a point has been accepted, a candidate outside the origin sentinel is
  rejected when \<open>sqrt(\<Delta>lat\<^sup>2 + \<Delta>lon\<^sup>2)\<close> from the last accepted point is below
  \<open>1e-5\<close>, the filter state staying as it was, and is accepted otherwise, becoming the
  last accepted point. After \<open>(10.000005, 20.000003)\<close> has been accepted as the first
  point, \<open>(10, 20)\<close> is rejected and \<open>(10.01, 20.01)\<close> is accepted.
\<close>

theorem minimum_movement:
  "(\<not> (\<bar>la\<bar> < 0.0001 \<and> \<bar>lo\<bar> < 0.0001) \<and> \<not> isFirstValidCoordinate s \<longrightarrow>
      isValidCoordinate la lo s =
        (if sqrt ((la - lastLat s)\<^sup>2 + (lo - lastLon s)\<^sup>2) < 0.00001 then (False, s)
         else (True, s\<lparr>lastLat := la, lastLon := lo\<rparr>)))
   \<and> fst (isValidCoordinate 10.000005 20.000003 initial_filter)
   \<and> isValidCoordinate 10 20 after_first_fix = (False, after_first_fix)
   \<and> isValidCoordinate 10.01 20.01 after_first_fix
       = (True, after_first_fix\<lparr>lastLat := 10.01, lastLon := 20.01\<rparr>)"
proof -
  have general: "isValidCoordinate la lo s =
        (if sqrt ((la - lastLat s)\<^sup>2 + (lo - lastLon s)\<^sup>2) < 0.00001 then (False, s)
         else (True, s\<lparr>lastLat := la, lastLon := lo\<rparr>))"
    if "\<not> (\<bar>la\<bar> < 0.0001 \<and> \<bar>lo\<bar> < 0.0001)" "\<not> isFirstValidCoordinate s" for la lo s
    using that
    by (auto simp add: isValidCoordinate_def calculateDistance_def MIN_DISTANCE_CHANGE_def Let_def)
  have st: "after_first_fix
      = \<lparr>isFirstValidCoordinate = False, lastLat = 10.000005, lastLon = 20.000003\<rparr>"
    unfolding after_first_fix_def first_fix_accepted by simp
  have a: "fst (isValidCoordinate 10.000005 20.000003 initial_filter)"
    unfolding first_fix_accepted by simp
  have r: "isValidCoordinate 10 20 after_first_fix = (False, after_first_fix)"
    using general [of 10 20 after_first_fix] jitter_distance by (simp add: st)
  have m: "isValidCoordinate 10.01 20.01 after_first_fix
       = (True, after_first_fix\<lparr>lastLat := 10.01, lastLon := 20.01\<rparr>)"
    using general [of "10.01" "20.01" after_first_fix] moved_distance by (simp add: st)
  from general a r m show ?thesis by blast
qed

theorem minimum_movement_witness:
  "isValidCoordinate 3 4 \<lparr>isFirstValidCoordinate = False, lastLat = 0, lastLon = 0\<rparr>
     = (True, \<lparr>isFirstValidCoordinate = False, lastLat = 3, lastLon = 4\<rparr>)
   \<and> isValidCoordinate 3 4 \<lparr>isFirstValidCoordinate = False, lastLat = 3, lastLon = 4\<rparr>
     = (False, \<lparr>isFirstValidCoordinate = False, lastLat = 3, lastLon = 4\<rparr>)"
  using minimum_movement [of 3 4 "\<lparr>isFirstValidCoordinate = False, lastLat = 0, lastLon = 0\<rparr>"]
    minimum_movement [of 3 4 "\<lparr>isFirstValidCoordinate = False, lastLat = 3, lastLon = 4\<rparr>"]
  by (simp add: power2_eq_square)

section \<open>Dispatch\<close>

text \<open>
  Claim C10. For every name other than \<open>haversine\<close>, \<open>convexHull\<close> and \<open>delaunay\<close>, the
  empty string and any unknown name included, \<open>getAreaCalculationFunction\<close> returns the
  shoelace function: an unknown tag computes the shoelace area and nothing fails.
\<close>

theorem unknown_algorithm_is_shoelace:
  assumes "algorithm \<noteq> ''haversine''" "algorithm \<noteq> ''convexHull''" "algorithm \<noteq> ''delaunay''"
  shows "getAreaCalculationFunction algorithm = (\<lambda>coords. Some (calculateShoelaceArea coords))"
  using assms by (simp add: getAreaCalculationFunction_def)

theorem unknown_algorithm_is_shoelace_witness:
  "getAreaCalculationFunction '''' = (\<lambda>coords. Some (calculateShoelaceArea coords))
   \<and> getAreaCalculationFunction ''shoelace'' = (\<lambda>coords. Some (calculateShoelaceArea coords))
   \<and> getAreaCalculationFunction ''Haversine'' square_boundary = Some 1239214.24"
proof -
  have "calculateShoelaceArea square_boundary = 1239214.24"
    by (simp add: square_boundary_def shoelace_eval)
  then show ?thesis
    using unknown_algorithm_is_shoelace [of "''''"] unknown_algorithm_is_shoelace [of "''shoelace''"]
      unknown_algorithm_is_shoelace [of "''Haversine''"]
    by simp
qed

section \<open>Rotation and reversal of the boundary\<close>














section \<open>Unit toggle\<close>













section \<open>Convex hull area and shoelace area\<close>





































































section \<open>The Heron step of the haversine area\<close>

text \<open>
  The haversine term lies in \<open>[0, 1]\<close>, so both square roots of \<open>haversineDistance\<close>
  are defined.
\<close>

lemma haversine_term_bounds:
  fixes p1 p2 B :: real
  defines "a \<equiv> sin ((p2 - p1) / 2) * sin ((p2 - p1) / 2) + cos p1 * cos p2 * sin B * sin B"
  shows "0 \<le> a" and "a \<le> 1"
proof -
  define t where "t = sin B * sin B"
  define c2 where "c2 = cos (p2 - p1)"
  define cS where "cS = cos (p1 + p2)"
  have "0 \<le> cos B * cos B" by simp
  then have t: "0 \<le> t" "t \<le> 1"
    using sin_cos_squared_add3 [of B] unfolding t_def by (simp, linarith)
  have c2: "- 1 \<le> c2" "c2 \<le> 1" and cS: "- 1 \<le> cS" "cS \<le> 1"
    by (simp_all add: c2_def cS_def)
  have prod: "cos p1 * cos p2 = (c2 + cS) / 2"
    by (simp add: c2_def cS_def cos_add cos_diff)
  have "p2 - p1 = 2 * ((p2 - p1) / 2)" by (simp add: field_simps)
  then have "cos (p2 - p1) = cos (2 * ((p2 - p1) / 2))" by (rule arg_cong)
  also have "\<dots> = 1 - 2 * (sin ((p2 - p1) / 2))\<^sup>2"
    by (rule cos_double_sin)
  finally have half: "sin ((p2 - p1) / 2) * sin ((p2 - p1) / 2) = (1 - c2) / 2"
    by (simp add: c2_def power2_eq_square)
  have a: "a = (1 - c2) / 2 + (c2 + cS) / 2 * t"
    unfolding a_def half prod t_def by (simp add: mult.assoc)
  have "0 \<le> (1 - c2) * (1 - t) + t * (1 + cS)" "0 \<le> (1 + c2) * (1 - t) + t * (1 - cS)"
    using t c2 cS by (simp_all add: add_nonneg_nonneg)
  moreover have "2 * a = (1 - c2) * (1 - t) + t * (1 + cS)"
    "2 * (1 - a) = (1 + c2) * (1 - t) + t * (1 - cS)"
    unfolding a by (simp_all add: field_simps)
  ultimately have "0 \<le> 2 * a" "0 \<le> 2 * (1 - a)" by simp_all
  then show "0 \<le> a" "a \<le> 1" by simp_all
qed

lemma haversineDistance_defined: "\<exists>d. haversineDistance lat1 lon1 lat2 lon2 = Some d"
proof -
  define p1 where "p1 = (lat1 * pi) / 180"
  define p2 where "p2 = (lat2 * pi) / 180"
  define B where "B = ((lon2 - lon1) * pi) / 180 / 2"
  define a where "a = sin ((p2 - p1) / 2) * sin ((p2 - p1) / 2) + cos p1 * cos p2 * sin B * sin B"
  have dLat: "((lat2 - lat1) * pi) / 180 / 2 = (p2 - p1) / 2"
    by (simp add: p1_def p2_def left_diff_distrib diff_divide_distrib)
  have "0 \<le> a" "a \<le> 1"
    unfolding a_def by (rule haversine_term_bounds)+
  then have "Math_sqrt a = Some (sqrt a)" "Math_sqrt (1 - a) = Some (sqrt (1 - a))"
    by (simp_all add: Math_sqrt_def)
  then show ?thesis
    unfolding haversineDistance_def Let_def dLat
    unfolding p1_def [symmetric] p2_def [symmetric] B_def [symmetric] a_def [symmetric]
    by simp
qed

text \<open>The clamped Heron step is defined on all sides and gives 0 on a negative radicand.\<close>

lemma heronTriangleArea_defined:
  "\<exists>t. heronTriangleArea a b c = Some t \<and> 0 \<le> t"
  by (simp add: heronTriangleArea_def Math_sqrt_def Let_def)

lemma heronTriangleArea_clamps:
  "(a + b + c) / 2 * ((a + b + c) / 2 - a) * ((a + b + c) / 2 - b) * ((a + b + c) / 2 - c) < 0
   \<Longrightarrow> heronTriangleArea a b c = Some 0"
  by (simp add: heronTriangleArea_def Math_sqrt_def Let_def max_def)

lemma page_heronTriangleArea_nan:
  "(a + b + c) / 2 * ((a + b + c) / 2 - a) * ((a + b + c) / 2 - b) * ((a + b + c) / 2 - c) < 0
   \<Longrightarrow> page_heronTriangleArea a b c = None"
  by (simp add: page_heronTriangleArea_def Math_sqrt_def Let_def)

lemma haversine_step_defined:
  "\<exists>r. haversine_step cs cen (Some ar) i = Some r"
proof -
  define j where "j = (i + 1) mod length cs"
  obtain a where a: "haversineDistance (lat cen) (lon cen) (lat (cs ! i)) (lon (cs ! i)) = Some a"
    using haversineDistance_defined by blast
  obtain b where b: "haversineDistance (lat cen) (lon cen) (lat (cs ! j)) (lon (cs ! j)) = Some b"
    using haversineDistance_defined by blast
  obtain c where c: "haversineDistance (lat (cs ! i)) (lon (cs ! i)) (lat (cs ! j)) (lon (cs ! j)) = Some c"
    using haversineDistance_defined by blast
  obtain t where t: "heronTriangleArea a b c = Some t"
    using heronTriangleArea_defined by blast
  show ?thesis
    unfolding haversine_step_def Let_def j_def [symmetric] by (simp add: a b c t)
qed

lemma haversine_fold_defined:
  "\<exists>r. foldl (haversine_step cs cen) (Some ar) is = Some r"
proof (induction "is" arbitrary: ar)
  case Nil
  then show ?case by simp
next
  case (Cons i "is")
  obtain r where "haversine_step cs cen (Some ar) i = Some r"
    using haversine_step_defined by blast
  then show ?case using Cons.IH [of r] by simp
qed

text \<open>In exact arithmetic the utility's haversine area is a number on every boundary.\<close>

lemma calculateHaversineArea_defined: "\<exists>r. calculateHaversineArea cs = Some r"
proof -
  obtain r where "foldl (haversine_step cs (centroid cs)) (Some 0) [0..<length cs] = Some r"
    using haversine_fold_defined by blast
  then show ?thesis by (simp add: calculateHaversineArea_def)
qed

text \<open>
  Claim C7. On every boundary of at least three points the haversine algorithm clamps
  the Heron radicand of each triangle to at least \<open>0\<close> before the square root, so that a
  negative radicand contributes \<open>0\<close> and not \<open>NaN\<close>. The utility module does; the copy of
  the function on the algorithms page takes the square root of the radicand as it is.
  The three sides below are the distances that double arithmetic gives for the first
  triangle of the collinear boundary \<open>(10, 20), (10.000000001, 20), (10.000000004, 20)\<close>:
  the second and third together are shorter than the first, the radicand is negative,
  the page's step is \<open>NaN\<close> and the utility's step is \<open>0\<close>.
\<close>

theorem page_heron_unclamped_nan:
  "page_heronTriangleArea (7001376507981949 / 2 ^ 75) (5601101206385559 / 2 ^ 76)
       (4200825904789169 / 2 ^ 75) = None
   \<and> heronTriangleArea (7001376507981949 / 2 ^ 75) (5601101206385559 / 2 ^ 76)
       (4200825904789169 / 2 ^ 75) = Some 0"
  by (simp add: page_heronTriangleArea_def heronTriangleArea_def Math_sqrt_def Let_def)

end
